theory Spec2Isabelle
  imports Complex_Main
begin

section \<open>The RPN calculator of \<^verbatim>\<open>src/lib/rpn-calculator.ts\<close>\<close>

text \<open>
  The calculator works on ECMAScript strings and on the ECMAScript \<^verbatim>\<open>number\<close> type
  (IEEE-754 binary64). The functions of the source file are translated one by one; the
  built-ins of the language they call (\<^verbatim>\<open>Number.parseFloat\<close>, \<^verbatim>\<open>isNaN\<close>, \<^verbatim>\<open>isFinite\<close>,
  the arithmetic operators, \<^verbatim>\<open>Math.pow\<close>, \<^verbatim>\<open>Math.sqrt\<close>, \<^verbatim>\<open>Math.sin\<close>, ...) are passed
  to them as a record, the \<^emph>\<open>runtime\<close>. Theorems stated for an arbitrary runtime hold
  for every implementation of the number type, rounding included. Closed examples use
  the concrete runtime \<open>js\<close> defined further down.
\<close>

subsection \<open>Errors\<close>

text \<open>
  Every \<^verbatim>\<open>throw new Error(message)\<close> of the source is one constructor. The two messages
  about missing operands share a constructor: \<open>InsufficientOperandsError (Some op)\<close> is
  \<^verbatim>\<open>Insufficient operands for operator 'op'\<close> (the arity guards), and
  \<open>InsufficientOperandsError None\<close> is \<^verbatim>\<open>Invalid expression: insufficient operands\<close>
  (the check after the loop).
\<close>

datatype error =
    EmptyExpressionError                      \<comment> \<open>\<^verbatim>\<open>Expression cannot be empty\<close>\<close>
  | InsufficientOperandsError "string option"
  | DivisionByZeroError                       \<comment> \<open>\<^verbatim>\<open>Division by zero\<close>\<close>
  | UnknownBinaryOperatorError string         \<comment> \<open>\<^verbatim>\<open>Unknown binary operator: op\<close>\<close>
  | NegativeSqrtError                         \<comment> \<open>\<^verbatim>\<open>Square root of negative number\<close>\<close>
  | UnknownUnaryOperatorError string          \<comment> \<open>\<^verbatim>\<open>Unknown unary operator: op\<close>\<close>
  | UnknownTokenError string                  \<comment> \<open>\<^verbatim>\<open>Unknown token: 'tok'\<close>\<close>
  | TooManyOperandsError                      \<comment> \<open>\<^verbatim>\<open>Invalid expression: too many operands\<close>\<close>

subsection \<open>The built-ins the source calls\<close>

record 'n runtime =
  parseFloat :: "string \<Rightarrow> 'n"            \<comment> \<open>\<^verbatim>\<open>Number.parseFloat\<close>\<close>
  isNaN :: "'n \<Rightarrow> bool"
  isFinite :: "'n \<Rightarrow> bool"
  num_lit :: "nat \<Rightarrow> 'n"                  \<comment> \<open>the numeric literals \<^verbatim>\<open>0\<close> and \<^verbatim>\<open>180\<close>\<close>
  Number_NaN :: "'n"
  Math_PI :: "'n"
  num_add :: "'n \<Rightarrow> 'n \<Rightarrow> 'n"             \<comment> \<open>\<^verbatim>\<open>a + b\<close> on numbers\<close>
  num_sub :: "'n \<Rightarrow> 'n \<Rightarrow> 'n"
  num_mul :: "'n \<Rightarrow> 'n \<Rightarrow> 'n"
  num_div :: "'n \<Rightarrow> 'n \<Rightarrow> 'n"
  Math_pow :: "'n \<Rightarrow> 'n \<Rightarrow> 'n"
  Math_sqrt :: "'n \<Rightarrow> 'n"
  Math_sin :: "'n \<Rightarrow> 'n"
  Math_cos :: "'n \<Rightarrow> 'n"
  Math_tan :: "'n \<Rightarrow> 'n"
  strict_eq :: "'n \<Rightarrow> 'n \<Rightarrow> bool"         \<comment> \<open>\<^verbatim>\<open>a === b\<close> on numbers\<close>
  num_less :: "'n \<Rightarrow> 'n \<Rightarrow> bool"          \<comment> \<open>\<^verbatim>\<open>a < b\<close> on numbers\<close>

subsection \<open>Strings: \<^verbatim>\<open>trim\<close> and \<^verbatim>\<open>split(/\s+/)\<close>\<close>

text \<open>
  A \<open>char\<close> stands for a UTF-16 code unit below 256. The white space of \<^verbatim>\<open>trim\<close> and of
  the regular expression class \<^verbatim>\<open>\s\<close> in that range is TAB, LF, VT, FF, CR, SP and NBSP.
\<close>

definition is_white_space :: "char \<Rightarrow> bool" where
  "is_white_space c = (of_char c \<in> {9, 10, 11, 12, 13, 32, 160 :: nat})"

definition trim :: "string \<Rightarrow> string" where
  "trim s = rev (dropWhile is_white_space (rev (dropWhile is_white_space s)))"

text \<open>
  \<^verbatim>\<open>s.split(/\s+/)\<close>: the pieces between maximal runs of white space. A run at the start or
  at the end of the string leaves an empty piece there, and the empty string splits into
  one empty piece.
\<close>

function split_ws :: "string \<Rightarrow> string list" where
  "split_ws s =
     (if dropWhile (\<lambda>c. \<not> is_white_space c) s = []
      then [takeWhile (\<lambda>c. \<not> is_white_space c) s]
      else takeWhile (\<lambda>c. \<not> is_white_space c) s
             # split_ws (dropWhile is_white_space (dropWhile (\<lambda>c. \<not> is_white_space c) s)))"
  by pat_completeness auto
termination
proof (relation "measure length")
  show "wf (measure length)" by simp
next
  fix s :: string
  assume ne: "dropWhile (\<lambda>c. \<not> is_white_space c) s \<noteq> []"
  obtain c r where cr: "dropWhile (\<lambda>c. \<not> is_white_space c) s = c # r"
    using ne by (cases "dropWhile (\<lambda>c. \<not> is_white_space c) s") auto
  have "is_white_space c"
    using hd_dropWhile [OF ne] cr by simp
  then have "length (dropWhile is_white_space (c # r)) \<le> length r"
    by (simp add: length_dropWhile_le)
  also have "length r < length (c # r)" by simp
  also have "length (c # r) \<le> length s"
    using length_dropWhile_le [of "\<lambda>c. \<not> is_white_space c" s] cr by simp
  finally show "(dropWhile is_white_space (dropWhile (\<lambda>c. \<not> is_white_space c) s), s)
      \<in> measure length"
    using cr by simp
qed

declare split_ws.simps [simp del]

subsection \<open>The helpers of the source\<close>

definition SUPPORTED_OPERATORS :: "string set" where
  "SUPPORTED_OPERATORS =
     {''+'', ''-'', ''*'', ''/'', ''^'', ''sqrt'', ''sin'', ''cos'', ''tan''}"

definition isNumber :: "'n runtime \<Rightarrow> string \<Rightarrow> bool" where
  "isNumber rt token =
     (\<not> isNaN rt (parseFloat rt token) \<and> isFinite rt (parseFloat rt token))"

definition toRadians :: "'n runtime \<Rightarrow> 'n \<Rightarrow> 'n" where
  "toRadians rt degrees = num_mul rt degrees (num_div rt (Math_PI rt) (num_lit rt 180))"

text \<open>
  The stack is the array of the source: \<^verbatim>\<open>push\<close> appends at the end, \<^verbatim>\<open>pop\<close> removes the
  last element. Both operator functions mutate the array they are given; the model
  returns the new array, or the error thrown.
\<close>

definition processBinaryOperator ::
  "'n runtime \<Rightarrow> 'n list \<Rightarrow> string \<Rightarrow> error + 'n list" where
  "processBinaryOperator rt stack operator =
     (if length stack < 2 then Inl (InsufficientOperandsError (Some operator))
      else
        let b = last stack;
            stack1 = butlast stack;
            a = last stack1;
            stack2 = butlast stack1
        in if operator = ''+'' then Inr (stack2 @ [num_add rt a b])
           else if operator = ''-'' then Inr (stack2 @ [num_sub rt a b])
           else if operator = ''*'' then Inr (stack2 @ [num_mul rt a b])
           else if operator = ''/'' then
             (if strict_eq rt b (num_lit rt 0) then Inl DivisionByZeroError
              else Inr (stack2 @ [num_div rt a b]))
           else if operator = ''^'' then Inr (stack2 @ [Math_pow rt a b])
           else Inl (UnknownBinaryOperatorError operator))"

definition processUnaryOperator ::
  "'n runtime \<Rightarrow> 'n list \<Rightarrow> string \<Rightarrow> error + 'n list" where
  "processUnaryOperator rt stack operator =
     (if length stack < 1 then Inl (InsufficientOperandsError (Some operator))
      else
        let a = last stack;
            stack1 = butlast stack
        in if operator = ''sqrt'' then
             (if num_less rt a (num_lit rt 0) then Inl NegativeSqrtError
              else Inr (stack1 @ [Math_sqrt rt a]))
           else if operator = ''sin'' then Inr (stack1 @ [Math_sin rt (toRadians rt a)])
           else if operator = ''cos'' then Inr (stack1 @ [Math_cos rt (toRadians rt a)])
           else if operator = ''tan'' then Inr (stack1 @ [Math_tan rt (toRadians rt a)])
           else Inl (UnknownUnaryOperatorError operator))"

subsection \<open>\<^verbatim>\<open>evaluateRPN\<close> and \<^verbatim>\<open>validateRPN\<close>\<close>

text \<open>The body of the \<^verbatim>\<open>for\<close> loop of \<^verbatim>\<open>evaluateRPN\<close>, for one token.\<close>

definition process_token :: "'n runtime \<Rightarrow> 'n list \<Rightarrow> string \<Rightarrow> error + 'n list" where
  "process_token rt stack token =
     (if isNumber rt token then Inr (stack @ [parseFloat rt token])
      else if token \<in> SUPPORTED_OPERATORS then
        (if token \<in> set [''sqrt'', ''sin'', ''cos'', ''tan'']
         then processUnaryOperator rt stack token
         else processBinaryOperator rt stack token)
      else Inl (UnknownTokenError token))"

text \<open>The loop: the first error ends it, as the exception does.\<close>

fun process_tokens :: "'n runtime \<Rightarrow> 'n list \<Rightarrow> string list \<Rightarrow> error + 'n list" where
  "process_tokens rt stack [] = Inr stack"
| "process_tokens rt stack (token # tokens) =
     (case process_token rt stack token of
        Inl e \<Rightarrow> Inl e
      | Inr stack' \<Rightarrow> process_tokens rt stack' tokens)"

text \<open>The check of the stack after the loop.\<close>

definition final_check :: "'n list \<Rightarrow> error + 'n" where
  "final_check stack =
     (if length stack \<noteq> 1 then
        (if length stack > 1 then Inl TooManyOperandsError
         else Inl (InsufficientOperandsError None))
      else Inr (stack ! 0))"

definition evaluateRPN :: "'n runtime \<Rightarrow> string \<Rightarrow> error + 'n" where
  "evaluateRPN rt expression =
     (if expression = [] \<or> length (trim expression) = 0 then Inl EmptyExpressionError
      else
        case process_tokens rt [] (split_ws (trim expression)) of
          Inl e \<Rightarrow> Inl e
        | Inr stack \<Rightarrow> final_check stack)"

definition validateRPN :: "'n runtime \<Rightarrow> string \<Rightarrow> bool" where
  "validateRPN rt expression =
     (case evaluateRPN rt expression of Inr v \<Rightarrow> True | Inl e \<Rightarrow> False)"

subsection \<open>\<^verbatim>\<open>getEvaluationSteps\<close>\<close>








section \<open>A concrete runtime\<close>

text \<open>
  The values of the number type: not-a-number, the two infinities and the finite values.
  The runtime \<open>js\<close> computes on them without rounding error: a finite result is the
  exact real result, unless its magnitude reaches the overflow threshold of binary64
  (\<open>2^1024 - 2^970\<close>, from which rounding to nearest gives an infinity). Loss of
  precision, underflow to zero and the sign of zero are not modelled; \<open>js\<close> agrees with
  binary64 arithmetic wherever the operands and the exact result are representable.
  The special cases follow ECMA-262 (\<^verbatim>\<open>Number::add\<close>, \<^verbatim>\<open>Number::multiply\<close>,
  \<^verbatim>\<open>Number::divide\<close>, \<^verbatim>\<open>Number::exponentiate\<close>, \<^verbatim>\<open>Math.sqrt\<close>, \<^verbatim>\<open>Math.sin\<close>, ...).
\<close>

datatype number = NaN | PosInfinity | NegInfinity | Finite real

definition overflow :: "real \<Rightarrow> number" where
  "overflow x =
     (if 2 ^ 1024 - 2 ^ 970 \<le> x then PosInfinity
      else if x \<le> - (2 ^ 1024 - 2 ^ 970) then NegInfinity
      else Finite x)"

fun js_isNaN :: "number \<Rightarrow> bool" where
  "js_isNaN NaN = True"
| "js_isNaN _ = False"

fun js_isFinite :: "number \<Rightarrow> bool" where
  "js_isFinite (Finite x) = True"
| "js_isFinite _ = False"

fun js_neg :: "number \<Rightarrow> number" where
  "js_neg NaN = NaN"
| "js_neg PosInfinity = NegInfinity"
| "js_neg NegInfinity = PosInfinity"
| "js_neg (Finite x) = Finite (- x)"

fun js_add :: "number \<Rightarrow> number \<Rightarrow> number" where
  "js_add NaN _ = NaN"
| "js_add _ NaN = NaN"
| "js_add PosInfinity NegInfinity = NaN"
| "js_add NegInfinity PosInfinity = NaN"
| "js_add PosInfinity _ = PosInfinity"
| "js_add NegInfinity _ = NegInfinity"
| "js_add _ PosInfinity = PosInfinity"
| "js_add _ NegInfinity = NegInfinity"
| "js_add (Finite x) (Finite y) = overflow (x + y)"

definition js_sub :: "number \<Rightarrow> number \<Rightarrow> number" where
  "js_sub a b = js_add a (js_neg b)"

text \<open>The sign of a product or quotient with an infinite operand; zero counts as \<open>+0\<close>.\<close>

fun is_negative :: "number \<Rightarrow> bool" where
  "is_negative NegInfinity = True"
| "is_negative (Finite x) = (x < 0)"
| "is_negative _ = False"

definition signed_infinity :: "bool \<Rightarrow> number" where
  "signed_infinity negative = (if negative then NegInfinity else PosInfinity)"

fun js_mul :: "number \<Rightarrow> number \<Rightarrow> number" where
  "js_mul NaN _ = NaN"
| "js_mul _ NaN = NaN"
| "js_mul (Finite x) (Finite y) = overflow (x * y)"
| "js_mul (Finite x) b = (if x = 0 then NaN else signed_infinity ((x < 0) \<noteq> is_negative b))"
| "js_mul a (Finite y) = (if y = 0 then NaN else signed_infinity (is_negative a \<noteq> (y < 0)))"
| "js_mul a b = signed_infinity (is_negative a \<noteq> is_negative b)"

fun js_div :: "number \<Rightarrow> number \<Rightarrow> number" where
  "js_div NaN _ = NaN"
| "js_div _ NaN = NaN"
| "js_div (Finite x) (Finite y) =
     (if y = 0 then (if x = 0 then NaN else signed_infinity (x < 0))
      else overflow (x / y))"
| "js_div (Finite x) b = Finite 0"
| "js_div a (Finite y) = signed_infinity (is_negative a \<noteq> (y < 0))"
| "js_div a b = NaN"

fun js_sqrt :: "number \<Rightarrow> number" where
  "js_sqrt NaN = NaN"
| "js_sqrt PosInfinity = PosInfinity"
| "js_sqrt NegInfinity = NaN"
| "js_sqrt (Finite x) = (if x < 0 then NaN else Finite (sqrt x))"

fun js_sin :: "number \<Rightarrow> number" where
  "js_sin (Finite x) = Finite (sin x)"
| "js_sin _ = NaN"

fun js_cos :: "number \<Rightarrow> number" where
  "js_cos (Finite x) = Finite (cos x)"
| "js_cos _ = NaN"

text \<open>At a pole of the exact tangent (which no binary64 value hits) \<open>js_tan\<close> has no value.\<close>

fun js_tan :: "number \<Rightarrow> number" where
  "js_tan (Finite x) = (if cos x = 0 then NaN else overflow (tan x))"
| "js_tan _ = NaN"

text \<open>\<^verbatim>\<open>Number::exponentiate\<close>, in the order of its steps.\<close>

definition is_odd_integer :: "number \<Rightarrow> bool" where
  "is_odd_integer b =
     (case b of Finite y \<Rightarrow> y = of_int \<lfloor>y\<rfloor> \<and> odd \<lfloor>y\<rfloor> | _ \<Rightarrow> False)"

fun is_positive :: "number \<Rightarrow> bool" where
  "is_positive PosInfinity = True"
| "is_positive (Finite x) = (0 < x)"
| "is_positive _ = False"

definition js_pow :: "number \<Rightarrow> number \<Rightarrow> number" where
  "js_pow base exponent =
     (if exponent = NaN then NaN
      else if exponent = Finite 0 then Finite 1
      else case base of
        NaN \<Rightarrow> NaN
      | PosInfinity \<Rightarrow> (if is_positive exponent then PosInfinity else Finite 0)
      | NegInfinity \<Rightarrow>
          (if is_positive exponent
           then (if is_odd_integer exponent then NegInfinity else PosInfinity)
           else Finite 0)
      | Finite x \<Rightarrow>
          (if x = 0 then (if is_positive exponent then Finite 0 else PosInfinity)
           else case exponent of
             NaN \<Rightarrow> NaN
           | PosInfinity \<Rightarrow>
               (if 1 < \<bar>x\<bar> then PosInfinity else if \<bar>x\<bar> = 1 then NaN else Finite 0)
           | NegInfinity \<Rightarrow>
               (if 1 < \<bar>x\<bar> then Finite 0 else if \<bar>x\<bar> = 1 then NaN else PosInfinity)
           | Finite y \<Rightarrow>
               (if x < 0 \<and> y \<noteq> of_int \<lfloor>y\<rfloor> then NaN
                else if x < 0 then overflow (x powi \<lfloor>y\<rfloor>)
                else overflow (x powr y))))"

text \<open>\<^verbatim>\<open>===\<close> and \<^verbatim>\<open><\<close> on numbers: every comparison with \<^verbatim>\<open>NaN\<close> is false.\<close>

definition js_strict_eq :: "number \<Rightarrow> number \<Rightarrow> bool" where
  "js_strict_eq a b = (a \<noteq> NaN \<and> b \<noteq> NaN \<and> a = b)"

fun js_less :: "number \<Rightarrow> number \<Rightarrow> bool" where
  "js_less NaN _ = False"
| "js_less _ NaN = False"
| "js_less _ NegInfinity = False"
| "js_less PosInfinity _ = False"
| "js_less NegInfinity _ = True"
| "js_less _ PosInfinity = True"
| "js_less (Finite x) (Finite y) = (x < y)"

subsection \<open>\<^verbatim>\<open>Number.parseFloat\<close>\<close>

text \<open>
  \<^verbatim>\<open>parseFloat\<close> skips leading white space and reads the \<^emph>\<open>longest prefix\<close> of the rest
  that is a \<^verbatim>\<open>StrDecimalLiteral\<close>: an optional sign, then \<^verbatim>\<open>Infinity\<close>, or digits with an
  optional fraction (\<^verbatim>\<open>12\<close>, \<^verbatim>\<open>12.\<close>, \<^verbatim>\<open>12.5\<close>, \<^verbatim>\<open>.5\<close>) and an optional exponent part
  (\<^verbatim>\<open>e\<close> or \<^verbatim>\<open>E\<close>, an optional sign, digits). Whatever follows the prefix is ignored. With
  no such prefix the result is \<^verbatim>\<open>NaN\<close>.
\<close>

definition is_digit :: "char \<Rightarrow> bool" where
  "is_digit c = (48 \<le> (of_char c :: nat) \<and> (of_char c :: nat) \<le> 57)"

definition digits_value :: "string \<Rightarrow> nat" where
  "digits_value ds = foldl (\<lambda>n c. 10 * n + (of_char c - 48)) 0 ds"

text \<open>An optional sign: whether it is \<^verbatim>\<open>-\<close>, and the rest.\<close>

fun read_sign :: "string \<Rightarrow> bool \<times> string" where
  "read_sign (c # cs) =
     (if c = CHR ''-'' then (True, cs) else if c = CHR ''+'' then (False, cs)
      else (False, c # cs))"
| "read_sign [] = (False, [])"

text \<open>The exponent part at the start of a string; \<open>0\<close> when there is none.\<close>

fun read_exponent :: "string \<Rightarrow> int" where
  "read_exponent (c # cs) =
     (if c = CHR ''e'' \<or> c = CHR ''E'' then
        (let ds = takeWhile is_digit (snd (read_sign cs)) in
         if ds = [] then 0
         else if fst (read_sign cs) then - int (digits_value ds)
         else int (digits_value ds))
      else 0)"
| "read_exponent [] = 0"

definition scale10 :: "real \<Rightarrow> int \<Rightarrow> real" where
  "scale10 m e = (if 0 \<le> e then m * 10 ^ nat e else m / 10 ^ nat (- e))"

definition js_parseFloat :: "string \<Rightarrow> number" where
  "js_parseFloat s =
     (let trimmed = dropWhile is_white_space s;
          negative = fst (read_sign trimmed);
          body = snd (read_sign trimmed)
      in if take 8 body = ''Infinity'' then signed_infinity negative
         else
           let int_digits = takeWhile is_digit body;
               after_int = dropWhile is_digit body;
               has_point = (after_int \<noteq> [] \<and> hd after_int = CHR ''.'');
               frac_digits = (if has_point then takeWhile is_digit (tl after_int) else []);
               after_frac = (if has_point then dropWhile is_digit (tl after_int) else after_int)
           in if int_digits = [] \<and> frac_digits = [] then NaN
              else
                let mantissa = real (digits_value (int_digits @ frac_digits))
                                 / 10 ^ length frac_digits;
                    magnitude = scale10 mantissa (read_exponent after_frac)
                in overflow (if negative then - magnitude else magnitude))"

definition js :: "number runtime" where
  "js = \<lparr>parseFloat = js_parseFloat, isNaN = js_isNaN, isFinite = js_isFinite,
          num_lit = (\<lambda>n. Finite (real n)), Number_NaN = NaN, Math_PI = Finite pi,
          num_add = js_add, num_sub = js_sub, num_mul = js_mul, num_div = js_div,
          Math_pow = js_pow, Math_sqrt = js_sqrt, Math_sin = js_sin, Math_cos = js_cos,
          Math_tan = js_tan, strict_eq = js_strict_eq, num_less = js_less\<rparr>"

section \<open>The left-to-right RPN scan, as the specification words it\<close>






section \<open>Properties\<close>

subsection \<open>Evaluating with the concrete runtime\<close>

lemma js_select [simp]:
  "parseFloat js = js_parseFloat" "isNaN js = js_isNaN" "isFinite js = js_isFinite"
  "num_lit js n = Finite (real n)" "Number_NaN js = NaN" "Math_PI js = Finite pi"
  "num_add js = js_add" "num_sub js = js_sub" "num_mul js = js_mul" "num_div js = js_div"
  "Math_pow js = js_pow" "Math_sqrt js = js_sqrt" "Math_sin js = js_sin"
  "Math_cos js = js_cos" "Math_tan js = js_tan" "strict_eq js = js_strict_eq"
  "num_less js = js_less"
  by (simp_all add: js_def)

lemmas parse_eval = js_parseFloat_def is_digit_def digits_value_def overflow_def scale10_def
  is_white_space_def signed_infinity_def

lemmas token_eval = process_token_def isNumber_def SUPPORTED_OPERATORS_def
  processBinaryOperator_def processUnaryOperator_def

lemmas eval_defs = trim_def final_check_def token_eval parse_eval

lemma overflow_in_range: "\<bar>x\<bar> < 4 \<Longrightarrow> overflow x = Finite x"
  by (simp add: overflow_def abs_less_iff)

lemma toRadians_90: "toRadians js (Finite 90) = Finite (pi / 2)"
proof -
  have "\<bar>pi / 180\<bar> < 4" "\<bar>90 * (pi / 180)\<bar> < 4"
    using pi_gt_zero pi_less_4 by simp_all
  then show ?thesis
    by (simp add: toRadians_def overflow_in_range)
qed

lemma sqrt_9: "sqrt 9 = 3"
  using real_sqrt_abs [of 3] by simp

text \<open>The token sequences of the examples.\<close>

lemma tokens_3_4_plus: "split_ws (trim ''3 4 +'') = [''3'', ''4'', ''+'']"
  by code_simp

lemma tokens_3_foo_plus: "split_ws (trim ''3 foo +'') = [''3'', ''foo'', ''+'']"
  by code_simp

lemma tokens_10_3_minus: "split_ws (trim ''10 3 -'') = [''10'', ''3'', ''-'']"
  by code_simp

lemma tokens_8_0_div: "split_ws (trim ''8 0 /'') = [''8'', ''0'', ''/'']"
  by code_simp

lemma tokens_neg4_sqrt: "split_ws (trim ''-4 sqrt'') = [''-4'', ''sqrt'']"
  by code_simp

lemma tokens_9_sqrt: "split_ws (trim ''9 sqrt'') = [''9'', ''sqrt'']"
  by code_simp

lemma tokens_90_sin: "split_ws (trim ''90 sin'') = [''90'', ''sin'']"
  by code_simp



lemma tokens_dots: "split_ws (trim ''1.5.5'') = [''1.5.5'']"
  by code_simp



text \<open>The examples of the specification, evaluated.\<close>

lemma eval_3_4_plus: "evaluateRPN js ''3 4 +'' = Inr (Finite 7)"
  unfolding evaluateRPN_def tokens_3_4_plus by (simp add: eval_defs)

lemma eval_3_foo_plus: "evaluateRPN js ''3 foo +'' = Inl (UnknownTokenError ''foo'')"
  unfolding evaluateRPN_def tokens_3_foo_plus by (simp add: eval_defs)

lemma eval_10_3_minus: "evaluateRPN js ''10 3 -'' = Inr (Finite 7)"
  unfolding evaluateRPN_def tokens_10_3_minus by (simp add: eval_defs js_sub_def)

lemma eval_8_0_div: "evaluateRPN js ''8 0 /'' = Inl DivisionByZeroError"
  unfolding evaluateRPN_def tokens_8_0_div by (simp add: eval_defs js_strict_eq_def)

lemma eval_neg4_sqrt: "evaluateRPN js ''-4 sqrt'' = Inl NegativeSqrtError"
  unfolding evaluateRPN_def tokens_neg4_sqrt by (simp add: eval_defs)

lemma eval_9_sqrt: "evaluateRPN js ''9 sqrt'' = Inr (Finite 3)"
  unfolding evaluateRPN_def tokens_9_sqrt by (simp add: eval_defs sqrt_9)

lemma eval_90_sin: "evaluateRPN js ''90 sin'' = Inr (Finite 1)"
  unfolding evaluateRPN_def tokens_90_sin by (simp add: eval_defs toRadians_90)



lemma eval_dots: "evaluateRPN js ''1.5.5'' = Inr (Finite (3 / 2))"
  unfolding evaluateRPN_def tokens_dots by (simp add: eval_defs)


subsection \<open>The loop of \<^verbatim>\<open>evaluateRPN\<close>\<close>


lemma process_token_nonempty:
  "process_token rt stack token = Inr stack' \<Longrightarrow> stack' \<noteq> []"
  by (auto simp: process_token_def processBinaryOperator_def processUnaryOperator_def Let_def
      split: if_splits)

lemma process_tokens_nonempty:
  "tokens \<noteq> [] \<Longrightarrow> process_tokens rt stack tokens = Inr stack' \<Longrightarrow> stack' \<noteq> []"
proof (induction tokens arbitrary: stack)
  case Nil
  then show ?case by simp
next
  case (Cons t ts)
  show ?case
  proof (cases "process_token rt stack t")
    case (Inl e)
    with Cons.prems show ?thesis by simp
  next
    case (Inr s1)
    show ?thesis
    proof (cases "ts = []")
      case True
      with Cons.prems Inr show ?thesis by (simp add: process_token_nonempty)
    next
      case False
      with Cons Inr show ?thesis by simp
    qed
  qed
qed

lemma split_ws_nonempty: "split_ws s \<noteq> []"
  by (subst split_ws.simps) simp

lemma trim_Nil: "trim [] = []"
  by (simp add: trim_def)


subsection \<open>The operator functions\<close>

lemma binary_add:
  "processBinaryOperator rt (stack @ [a, b]) ''+'' = Inr (stack @ [num_add rt a b])"
  by (simp add: processBinaryOperator_def butlast_append)

lemma binary_sub:
  "processBinaryOperator rt (stack @ [a, b]) ''-'' = Inr (stack @ [num_sub rt a b])"
  by (simp add: processBinaryOperator_def butlast_append)

lemma binary_mul:
  "processBinaryOperator rt (stack @ [a, b]) ''*'' = Inr (stack @ [num_mul rt a b])"
  by (simp add: processBinaryOperator_def butlast_append)

lemma binary_div:
  "processBinaryOperator rt (stack @ [a, b]) ''/'' =
     (if strict_eq rt b (num_lit rt 0) then Inl DivisionByZeroError
      else Inr (stack @ [num_div rt a b]))"
  by (simp add: processBinaryOperator_def butlast_append)

lemma binary_pow:
  "processBinaryOperator rt (stack @ [a, b]) ''^'' = Inr (stack @ [Math_pow rt a b])"
  by (simp add: processBinaryOperator_def butlast_append)

lemma binary_short:
  "length stack < 2 \<Longrightarrow>
   processBinaryOperator rt stack operator = Inl (InsufficientOperandsError (Some operator))"
  by (simp add: processBinaryOperator_def)

lemma binary_dispatch:
  "operator \<in> {''+'', ''-'', ''*'', ''/'', ''^''} \<Longrightarrow> \<not> isNumber rt operator \<Longrightarrow>
   process_token rt stack operator = processBinaryOperator rt stack operator"
  by (auto simp: process_token_def SUPPORTED_OPERATORS_def)

lemma unary_sqrt:
  "processUnaryOperator rt (stack @ [a]) ''sqrt'' =
     (if num_less rt a (num_lit rt 0) then Inl NegativeSqrtError
      else Inr (stack @ [Math_sqrt rt a]))"
  by (simp add: processUnaryOperator_def)

lemma unary_sin:
  "processUnaryOperator rt (stack @ [a]) ''sin'' =
     Inr (stack @ [Math_sin rt (num_mul rt a (num_div rt (Math_PI rt) (num_lit rt 180)))])"
  by (simp add: processUnaryOperator_def toRadians_def)

lemma unary_cos:
  "processUnaryOperator rt (stack @ [a]) ''cos'' =
     Inr (stack @ [Math_cos rt (num_mul rt a (num_div rt (Math_PI rt) (num_lit rt 180)))])"
  by (simp add: processUnaryOperator_def toRadians_def)

lemma unary_tan:
  "processUnaryOperator rt (stack @ [a]) ''tan'' =
     Inr (stack @ [Math_tan rt (num_mul rt a (num_div rt (Math_PI rt) (num_lit rt 180)))])"
  by (simp add: processUnaryOperator_def toRadians_def)

lemma radians_per_degree: "js_div (Finite pi) (Finite 180) = Finite (pi / 180)"
proof -
  have "\<bar>pi / 180\<bar> < 4"
    using pi_gt_zero pi_less_4 by simp
  then show ?thesis
    by (simp add: overflow_in_range)
qed

lemma toRadians_exact:
  assumes "\<bar>x\<bar> < 2 ^ 1024 - 2 ^ 970"
  shows "toRadians js (Finite x) = Finite (x * pi / 180)"
proof -
  have f: "0 < pi / 180" "pi / 180 < 1"
    using pi_gt_zero pi_less_4 by simp_all
  have "\<bar>x * (pi / 180)\<bar> = \<bar>x\<bar> * (pi / 180)"
    using f by (simp add: abs_mult)
  also have "\<dots> \<le> \<bar>x\<bar> * 1"
    using f by (intro mult_left_mono) simp_all
  finally have "\<bar>x * (pi / 180)\<bar> < 2 ^ 1024 - 2 ^ 970"
    using assms by simp
  then have o: "overflow (x * (pi / 180)) = Finite (x * (pi / 180))"
    unfolding overflow_def by (simp only: abs_less_iff) auto
  have "toRadians js (Finite x) = js_mul (Finite x) (js_div (Finite pi) (Finite 180))"
    by (simp add: toRadians_def)
  also have "\<dots> = js_mul (Finite x) (Finite (pi / 180))"
    by (simp only: radians_per_degree)
  also have "\<dots> = Finite (x * (pi / 180))"
    using o by simp
  finally show ?thesis by simp
qed


lemma js_less_zero: "js_less x (Finite 0) = is_negative x"
  by (cases x) simp_all

lemma js_strict_eq_zero: "js_strict_eq d (Finite 0) = (d = Finite 0)"
  by (auto simp: js_strict_eq_def)

subsection \<open>The loop and the scan of the specification\<close>





subsection \<open>Errors of the loop\<close>

lemma process_token_error:
  "process_token rt stack token = Inl e \<Longrightarrow> e \<noteq> InsufficientOperandsError None"
  by (auto simp: process_token_def processBinaryOperator_def processUnaryOperator_def Let_def
      split: if_splits)

lemma process_tokens_error:
  "process_tokens rt stack tokens = Inl e \<Longrightarrow> e \<noteq> InsufficientOperandsError None"
proof (induction tokens arbitrary: stack)
  case Nil
  then show ?case by simp
next
  case (Cons t ts)
  show ?case
  proof (cases "process_token rt stack t")
    case (Inl e')
    with Cons.prems have "e = e'" by simp
    with Inl show ?thesis by (simp add: process_token_error)
  next
    case (Inr s1)
    with Cons show ?thesis by simp
  qed
qed

lemma evaluate_not_final_insufficient:
  "evaluateRPN rt expression \<noteq> Inl (InsufficientOperandsError None)"
proof (cases "expression = [] \<or> length (trim expression) = 0")
  case True
  then show ?thesis by (simp add: evaluateRPN_def)
next
  case ne: False
  show ?thesis
  proof (cases "process_tokens rt [] (split_ws (trim expression))")
    case (Inl e)
    then have "e \<noteq> InsufficientOperandsError None"
      by (rule process_tokens_error)
    with ne Inl show ?thesis by (simp add: evaluateRPN_def)
  next
    case (Inr stack)
    then have "stack \<noteq> []"
      using process_tokens_nonempty [OF split_ws_nonempty] by blast
    then have "final_check stack \<noteq> Inl (InsufficientOperandsError None)"
      by (cases stack) (simp_all add: final_check_def)
    with ne Inr show ?thesis by (simp add: evaluateRPN_def)
  qed
qed

lemma operator_tokens:
  "split_ws (trim ''+'') = [''+'']" "split_ws (trim ''-'') = [''-'']"
  "split_ws (trim ''*'') = [''*'']" "split_ws (trim ''/'') = [''/'']"
  "split_ws (trim ''^'') = [''^'']" "split_ws (trim ''sqrt'') = [''sqrt'']"
  "split_ws (trim ''sin'') = [''sin'']" "split_ws (trim ''cos'') = [''cos'']"
  "split_ws (trim ''tan'') = [''tan'']"
  by code_simp+

lemma operator_trimmed:
  "operator \<in> SUPPORTED_OPERATORS \<Longrightarrow> trim operator \<noteq> []"
  by (auto simp: SUPPORTED_OPERATORS_def trim_def is_white_space_def)

lemma operator_split:
  "operator \<in> SUPPORTED_OPERATORS \<Longrightarrow> split_ws (trim operator) = [operator]"
  using operator_tokens by (auto simp: SUPPORTED_OPERATORS_def)

lemma lone_operator_token:
  "operator \<in> SUPPORTED_OPERATORS \<Longrightarrow> \<not> isNumber rt operator \<Longrightarrow>
   process_token rt [] operator = Inl (InsufficientOperandsError (Some operator))"
  by (simp add: process_token_def processBinaryOperator_def processUnaryOperator_def)

lemma evaluate_lone_operator:
  "operator \<in> SUPPORTED_OPERATORS \<and> \<not> isNumber rt operator \<Longrightarrow>
   evaluateRPN rt operator = Inl (InsufficientOperandsError (Some operator))"
proof -
  assume a: "operator \<in> SUPPORTED_OPERATORS \<and> \<not> isNumber rt operator"
  then have "process_tokens rt [] (split_ws (trim operator))
               = Inl (InsufficientOperandsError (Some operator))"
    by (simp add: operator_split lone_operator_token)
  moreover have "trim operator \<noteq> []"
    using a by (simp add: operator_trimmed)
  ultimately show ?thesis
    by (auto simp: evaluateRPN_def trim_Nil)
qed

lemma eval_plus: "evaluateRPN js ''+'' = Inl (InsufficientOperandsError (Some ''+''))"
  by (rule evaluate_lone_operator) (simp add: SUPPORTED_OPERATORS_def isNumber_def parse_eval)

subsection \<open>The value returned\<close>



lemma tokens_overflow: "split_ws (trim ''1e308 10 *'') = [''1e308'', ''10'', ''*'']"
  by code_simp

lemma eval_overflow: "evaluateRPN js ''1e308 10 *'' = Inr PosInfinity"
  unfolding evaluateRPN_def tokens_overflow by (simp add: eval_defs)

lemma tokens_3abc: "split_ws (trim ''3abc'') = [''3abc'']"
  by code_simp

lemma eval_3abc: "evaluateRPN js ''3abc'' = Inr (Finite 3)"
  unfolding evaluateRPN_def tokens_3abc by (simp add: eval_defs)

subsection \<open>The loop of \<^verbatim>\<open>getEvaluationSteps\<close>\<close>


















section \<open>The claims\<close>

text \<open>
  C1 (the code departs from the claim): \<open>isNumber\<close> accepts a token as soon as a prefix
  of it is a decimal literal, because \<^verbatim>\<open>Number.parseFloat\<close> ignores what follows the
  literal. The token \<^verbatim>\<open>1.5.5\<close>, with two decimal points, is classified as a number and
  \<open>evaluateRPN\<close> returns 1.5 for it instead of failing with the unknown-token error;
  likewise \<^verbatim>\<open>3abc\<close> evaluates to 3.
\<close>

theorem C1_numeric_prefix_accepted:
  "isNumber js ''1.5.5'' \<and> evaluateRPN js ''1.5.5'' = Inr (Finite (3 / 2))
   \<and> isNumber js ''3abc'' \<and> evaluateRPN js ''3abc'' = Inr (Finite 3)"
  by (simp add: eval_dots eval_3abc isNumber_def parse_eval)




text \<open>
  C3: for every input string, \<open>validateRPN\<close> returns a boolean (it is a total function:
  the \<^verbatim>\<open>catch\<close> turns every error of \<open>evaluateRPN\<close> into \<open>False\<close>), and it returns
  \<open>True\<close> if and only if \<open>evaluateRPN\<close> succeeds on the same input.
\<close>

theorem C3_validate_iff_evaluate_succeeds:
  "validateRPN rt expression = (\<exists>v. evaluateRPN rt expression = Inr v)"
  by (cases "evaluateRPN rt expression") (simp_all add: validateRPN_def)

theorem C3_validate_witness:
  "validateRPN js ''3 4 +'' \<and> \<not> validateRPN js ''3 foo +''"
  using C3_validate_iff_evaluate_succeeds [of js "''3 4 +''"]
        C3_validate_iff_evaluate_succeeds [of js "''3 foo +''"]
  by (simp add: eval_3_4_plus eval_3_foo_plus)

text \<open>
  C4, as stated, fails for \<^verbatim>\<open>/\<close>: with the two values 10 and 0 on the stack the
  operator pushes nothing and the division-by-zero error is raised.
\<close>

theorem C4_division_pushes_nothing:
  "process_token js [Finite 10, Finite 0] ''/'' = Inl DivisionByZeroError"
  by (simp add: token_eval parse_eval js_strict_eq_def)

text \<open>
  C4, amended: a binary operator applied to a stack that ends with \<open>a\<close>, \<open>b\<close> (\<open>b\<close>
  pushed last) pops both and pushes the single value \<open>a op b\<close>, in this operand order;
  for \<^verbatim>\<open>/\<close> this is the case when the divisor is not \<^verbatim>\<open>=== 0\<close>. With fewer than two
  values the operator fails with the insufficient-operands error that names it. The
  loop of \<open>evaluateRPN\<close> hands every such token that is not a number to this function,
  and \<^verbatim>\<open>10 3 -\<close> evaluates to 7.
\<close>

theorem C4_binary_operand_order:
  "processBinaryOperator rt (stack @ [a, b]) ''+'' = Inr (stack @ [num_add rt a b])
   \<and> processBinaryOperator rt (stack @ [a, b]) ''-'' = Inr (stack @ [num_sub rt a b])
   \<and> processBinaryOperator rt (stack @ [a, b]) ''*'' = Inr (stack @ [num_mul rt a b])
   \<and> (\<not> strict_eq rt b (num_lit rt 0) \<longrightarrow>
        processBinaryOperator rt (stack @ [a, b]) ''/'' = Inr (stack @ [num_div rt a b]))
   \<and> processBinaryOperator rt (stack @ [a, b]) ''^'' = Inr (stack @ [Math_pow rt a b])
   \<and> (length short < 2 \<longrightarrow>
        processBinaryOperator rt short operator
          = Inl (InsufficientOperandsError (Some operator)))
   \<and> (operator \<in> {''+'', ''-'', ''*'', ''/'', ''^''} \<and> \<not> isNumber rt operator \<longrightarrow>
        process_token rt any operator = processBinaryOperator rt any operator)
   \<and> evaluateRPN js ''10 3 -'' = Inr (Finite 7)"
  by (intro conjI impI binary_add binary_sub binary_mul binary_pow binary_short
      binary_dispatch eval_10_3_minus)
    (simp_all add: binary_div)

theorem C4_binary_witness:
  "processBinaryOperator js [Finite 10, Finite 3] ''-'' = Inr [Finite 7]
   \<and> processBinaryOperator js [Finite 10, Finite 4] ''/'' = Inr [Finite (5 / 2)]
   \<and> processBinaryOperator js [Finite 1] ''-'' = Inl (InsufficientOperandsError (Some ''-''))
   \<and> process_token js [Finite 1] ''-'' = Inl (InsufficientOperandsError (Some ''-''))"
  using C4_binary_operand_order [of js "[]" "Finite 10" "Finite 3" "[Finite 1]" "''-''" "[Finite 1]"]
        C4_binary_operand_order [of js "[]" "Finite 10" "Finite 4" "[Finite 1]" "''-''" "[Finite 1]"]
  by (simp add: js_sub_def js_strict_eq_def isNumber_def parse_eval)

text \<open>
  C5: applied to popped operands \<open>(a, b)\<close>, the operator \<^verbatim>\<open>/\<close> fails with the
  division-by-zero error if and only if \<^verbatim>\<open>b === 0\<close>, and otherwise pushes \<open>a / b\<close>. In the
  concrete runtime \<^verbatim>\<open>b === 0\<close> holds exactly for the value zero, and \<^verbatim>\<open>8 0 /\<close> fails
  with the division-by-zero error.
\<close>

theorem C5_division_by_zero:
  "(processBinaryOperator rt (stack @ [a, b]) ''/'' = Inl DivisionByZeroError)
     = strict_eq rt b (num_lit rt 0)
   \<and> (\<not> strict_eq rt b (num_lit rt 0) \<longrightarrow>
        processBinaryOperator rt (stack @ [a, b]) ''/'' = Inr (stack @ [num_div rt a b]))
   \<and> strict_eq js d (num_lit js 0) = (d = Finite 0)
   \<and> evaluateRPN js ''8 0 /'' = Inl DivisionByZeroError"
  by (simp add: binary_div js_strict_eq_zero eval_8_0_div)

theorem C5_division_witness:
  "processBinaryOperator js [Finite 8, Finite 0] ''/'' = Inl DivisionByZeroError
   \<and> processBinaryOperator js [Finite 8, Finite 2] ''/'' = Inr [Finite 4]"
  using C5_division_by_zero [of js "[]" "Finite 8" "Finite 0" "Finite 0"]
        C5_division_by_zero [of js "[]" "Finite 8" "Finite 2" "Finite 0"]
  by (simp add: js_strict_eq_def overflow_def)

text \<open>
  C6: applied to the popped operand \<open>a\<close>, \<^verbatim>\<open>sqrt\<close> fails with the negative-square-root
  error if and only if \<^verbatim>\<open>a < 0\<close>, and otherwise pushes \<^verbatim>\<open>Math.sqrt(a)\<close>; \<^verbatim>\<open>sin\<close>, \<^verbatim>\<open>cos\<close>
  and \<^verbatim>\<open>tan\<close> push the function applied to \<open>a * (PI / 180)\<close>, the operand read as degrees.
  In the concrete runtime \<^verbatim>\<open>a < 0\<close> holds exactly for the negative values, the radians of
  a finite value \<open>d\<close> in the range of binary64 are \<open>d * pi / 180\<close>, \<^verbatim>\<open>-4 sqrt\<close> fails,
  \<^verbatim>\<open>9 sqrt\<close> is 3 and \<^verbatim>\<open>90 sin\<close> is 1.
\<close>

theorem C6_unary_operators:
  "(processUnaryOperator rt (stack @ [a]) ''sqrt'' = Inl NegativeSqrtError)
     = num_less rt a (num_lit rt 0)
   \<and> (\<not> num_less rt a (num_lit rt 0) \<longrightarrow>
        processUnaryOperator rt (stack @ [a]) ''sqrt'' = Inr (stack @ [Math_sqrt rt a]))
   \<and> processUnaryOperator rt (stack @ [a]) ''sin''
       = Inr (stack @ [Math_sin rt (num_mul rt a (num_div rt (Math_PI rt) (num_lit rt 180)))])
   \<and> processUnaryOperator rt (stack @ [a]) ''cos''
       = Inr (stack @ [Math_cos rt (num_mul rt a (num_div rt (Math_PI rt) (num_lit rt 180)))])
   \<and> processUnaryOperator rt (stack @ [a]) ''tan''
       = Inr (stack @ [Math_tan rt (num_mul rt a (num_div rt (Math_PI rt) (num_lit rt 180)))])
   \<and> num_less js x (num_lit js 0) = is_negative x
   \<and> (\<bar>d\<bar> < 2 ^ 1024 - 2 ^ 970 \<longrightarrow> toRadians js (Finite d) = Finite (d * pi / 180))
   \<and> evaluateRPN js ''-4 sqrt'' = Inl NegativeSqrtError
   \<and> evaluateRPN js ''9 sqrt'' = Inr (Finite 3)
   \<and> evaluateRPN js ''90 sin'' = Inr (Finite 1)"
  by (intro conjI impI unary_sin unary_cos unary_tan toRadians_exact eval_neg4_sqrt
      eval_9_sqrt eval_90_sin)
    (simp_all add: unary_sqrt js_less_zero)

theorem C6_unary_witness:
  "processUnaryOperator js [Finite 9] ''sqrt'' = Inr [Finite 3]
   \<and> processUnaryOperator js [Finite (- 4)] ''sqrt'' = Inl NegativeSqrtError
   \<and> processUnaryOperator js [Finite 0] ''cos'' = Inr [Finite 1]
   \<and> toRadians js (Finite 90) = Finite (pi / 2)"
proof -
  have r: "\<bar>90 :: real\<bar> < 2 ^ 1024 - 2 ^ 970" by simp
  show ?thesis
    using C6_unary_operators [where rt = js and stack = "[]" and a = "Finite 9" and d = 90]
      C6_unary_operators [where rt = js and stack = "[]" and a = "Finite (- 4)" and d = 90]
      C6_unary_operators [where rt = js and stack = "[]" and a = "Finite 0" and d = 90]
      r pi_gt_zero pi_less_4
    by (simp add: sqrt_9 overflow_in_range)
qed





text \<open>
  C9: a token processed without failure leaves a non-empty stack, and so does a
  non-empty token sequence; \<open>evaluateRPN\<close> therefore never fails with the end-of-scan
  insufficient-operands error, on any input. A lone operator fails in the arity guard
  of the operator, with the error that names it.
\<close>

theorem C9_final_empty_stack_unreachable:
  "(process_token rt stack token = Inr stack' \<longrightarrow> stack' \<noteq> [])
   \<and> (tokens \<noteq> [] \<and> process_tokens rt stack tokens = Inr stack'' \<longrightarrow> stack'' \<noteq> [])
   \<and> evaluateRPN rt expression \<noteq> Inl (InsufficientOperandsError None)
   \<and> (operator \<in> SUPPORTED_OPERATORS \<and> \<not> isNumber rt operator \<longrightarrow>
        evaluateRPN rt operator = Inl (InsufficientOperandsError (Some operator)))
   \<and> evaluateRPN js ''+'' = Inl (InsufficientOperandsError (Some ''+''))"
  using process_token_nonempty [of rt stack token stack']
    process_tokens_nonempty [of tokens rt stack stack'']
    evaluate_not_final_insufficient [of rt expression]
    evaluate_lone_operator [of operator rt]
    eval_plus
  by blast

theorem C9_nonempty_stack_witness:
  "process_token js [] ''5'' = Inr [Finite 5]
   \<and> process_tokens js [] [''9'', ''sqrt''] = Inr [Finite 3]
   \<and> evaluateRPN js ''sqrt'' = Inl (InsufficientOperandsError (Some ''sqrt''))"
proof -
  have a: "process_token js [] ''5'' = Inr [Finite 5]"
    by (simp add: token_eval parse_eval)
  have b: "process_tokens js [] [''9'', ''sqrt''] = Inr [Finite 3]"
    by (simp add: token_eval parse_eval sqrt_9)
  have c: "''sqrt'' \<in> SUPPORTED_OPERATORS \<and> \<not> isNumber js ''sqrt''"
    by (simp add: SUPPORTED_OPERATORS_def isNumber_def parse_eval)
  show ?thesis
    using C9_final_empty_stack_unreachable
      [of js "[]" "''5''" "[Finite 5]" "[''9'', ''sqrt'']" "[Finite 3]" "''sqrt''" "''sqrt''"]
      a b c
    by simp
qed



end
